theory Spec2Isabelle
  imports Main
begin

section \<open>JavaScript values reaching the chat route\<close>

text \<open>
  The route \<^verbatim>\<open>src/app/api/chat/route.ts\<close> reads its input with \<^verbatim>\<open>await req.json()\<close>,
  so what it works on is a parsed JSON value. The TypeScript annotation
  \<^verbatim>\<open>ChatRequest\<close> is erased at run time; the handler's own checks are all that stands
  between the body and the inference call, so the model keeps every JSON shape.

  A \<open>string\<close> is a sequence of code units below 256; a JSON number is an integer
  (the handler only tests a number for zero and renders it as a property key).
  A parsed object is an association list read by \<open>map_of\<close>.
\<close>

datatype json =
    JNull
  | JBool bool
  | JNum int
  | JStr string
  | JArr "json list"
  | JObj "(string \<times> json) list"

text \<open>A JavaScript value taken out of the body: \<open>None\<close> is \<^verbatim>\<open>undefined\<close>.\<close>

type_synonym jsvalue = "json option"

datatype js_error = SyntaxError | TypeError | OtherError string

text \<open>The request as \<^verbatim>\<open>req.json()\<close> sees it: a body that is not JSON makes it throw.\<close>

datatype request = NotJson | JsonBody json

definition req_json :: "request \<Rightarrow> js_error + json" where
  "req_json req = (case req of NotJson \<Rightarrow> Inl SyntaxError | JsonBody v \<Rightarrow> Inr v)"

text \<open>
  \<^verbatim>\<open>const { messages, mode } = v\<close>: destructuring \<^verbatim>\<open>null\<close> throws a TypeError; an
  object yields its own properties; a string, number, boolean or array has no
  property named \<^verbatim>\<open>messages\<close> or \<^verbatim>\<open>mode\<close>, and neither has \<^verbatim>\<open>Object.prototype\<close>.
\<close>

definition destructure :: "json \<Rightarrow> js_error + (jsvalue \<times> jsvalue)" where
  "destructure v =
     (case v of
        JNull \<Rightarrow> Inl TypeError
      | JObj kvs \<Rightarrow> Inr (map_of kvs ''messages'', map_of kvs ''mode'')
      | _ \<Rightarrow> Inr (None, None))"

text \<open>\<^verbatim>\<open>!x\<close> is true exactly when \<open>x\<close> is not truthy.\<close>

fun truthy :: "jsvalue \<Rightarrow> bool" where
  "truthy None = False"
| "truthy (Some JNull) = False"
| "truthy (Some (JBool b)) = b"
| "truthy (Some (JNum n)) = (n \<noteq> 0)"
| "truthy (Some (JStr s)) = (s \<noteq> [])"
| "truthy (Some (JArr xs)) = True"
| "truthy (Some (JObj kvs)) = True"

fun isArray :: "jsvalue \<Rightarrow> bool" where
  "isArray (Some (JArr xs)) = True"
| "isArray _ = False"

subsection \<open>Property keys\<close>

text \<open>
  \<^verbatim>\<open>MODELS[mode]\<close> first converts \<open>mode\<close> to a property key (a string). A number
  is rendered in decimal, an array is joined with commas (\<^verbatim>\<open>null\<close> elements render
  empty), a plain object renders \<^verbatim>\<open>[object Object]\<close> through the inherited
  \<^verbatim>\<open>toString\<close>. An object with an own property \<^verbatim>\<open>toString\<close> (from JSON it is never
  callable) has no primitive value: the conversion throws a TypeError.
\<close>

fun natStr :: "nat \<Rightarrow> string" where
  "natStr n =
     (if n < 10 then [''0123456789'' ! n]
      else natStr (n div 10) @ [''0123456789'' ! (n mod 10)])"

definition numStr :: "int \<Rightarrow> string" where
  "numStr i = (if i < 0 then CHR ''-'' # natStr (nat (- i)) else natStr (nat i))"

fun toString :: "json \<Rightarrow> js_error + string"
  and join :: "json list \<Rightarrow> js_error + string"
  and element :: "json \<Rightarrow> js_error + string" where
  "toString JNull = Inr ''null''"
| "toString (JBool b) = Inr (if b then ''true'' else ''false'')"
| "toString (JNum n) = Inr (numStr n)"
| "toString (JStr s) = Inr s"
| "toString (JArr xs) = join xs"
| "toString (JObj kvs) =
     (if ''toString'' \<in> fst ` set kvs then Inl TypeError else Inr ''[object Object]'')"
| "join [] = Inr []"
| "join (x # xs) =
     (case element x of
        Inl e \<Rightarrow> Inl e
      | Inr s \<Rightarrow>
          (if xs = [] then Inr s
           else case join xs of Inl e \<Rightarrow> Inl e | Inr r \<Rightarrow> Inr (s @ '','' @ r)))"
| "element JNull = Inr []"
| "element v = toString v"

definition toPropertyKey :: "jsvalue \<Rightarrow> js_error + string" where
  "toPropertyKey v = (case v of None \<Rightarrow> Inr ''undefined'' | Some j \<Rightarrow> toString j)"

section \<open>The mode catalog (src/lib/groqModels.ts)\<close>

definition MODELS :: "(string \<times> string) list" where
  "MODELS =
     [(''fast'', ''llama-3.1-8b-instant''),
      (''default'', ''llama-3.3-70b-versatile''),
      (''reasoning'', ''openai/gpt-oss-120b''),
      (''browserLite'', ''openai/gpt-oss-20b''),
      (''safety'', ''meta-llama/llama-guard-4-12b''),
      (''compound'', ''groq/compound'')]"

text \<open>\<^verbatim>\<open>keyof typeof MODELS\<close>: the keys of the catalog.\<close>

definition ModelKey :: "string set" where
  "ModelKey = fst ` set MODELS"

text \<open>
  \<^verbatim>\<open>MODELS\<close> is an object literal, so its prototype is \<^verbatim>\<open>Object.prototype\<close>, and
  \<^verbatim>\<open>MODELS[k]\<close> is a property read: the own property \<open>k\<close> when there is one, else
  the property \<open>k\<close> of \<^verbatim>\<open>Object.prototype\<close>, else \<^verbatim>\<open>undefined\<close>.
\<close>

definition Object_prototype :: "string list" where
  "Object_prototype =
     [''constructor'', ''__defineGetter__'', ''__defineSetter__'', ''hasOwnProperty'',
      ''__lookupGetter__'', ''__lookupSetter__'', ''isPrototypeOf'',
      ''propertyIsEnumerable'', ''toString'', ''valueOf'', ''__proto__'',
      ''toLocaleString'']"

text \<open>
  What a read of \<^verbatim>\<open>MODELS\<close> returns: \<^verbatim>\<open>undefined\<close>, a model identifier, or the value
  of the inherited property of that name (a built-in function, or
  \<^verbatim>\<open>Object.prototype\<close> itself for \<^verbatim>\<open>__proto__\<close>).
\<close>

datatype prop_value = Undefined | Str string | Inherited string

fun truthy_prop :: "prop_value \<Rightarrow> bool" where
  "truthy_prop Undefined = False"
| "truthy_prop (Str s) = (s \<noteq> [])"
| "truthy_prop (Inherited k) = True"

definition MODELS_get :: "string \<Rightarrow> prop_value" where
  "MODELS_get k =
     (case map_of MODELS k of
        Some modelId \<Rightarrow> Str modelId
      | None \<Rightarrow> if k \<in> set Object_prototype then Inherited k else Undefined)"

text \<open>\<^verbatim>\<open>MODELS[mode]\<close> for a value \<open>mode\<close> of the body.\<close>

definition MODELS_index :: "jsvalue \<Rightarrow> js_error + prop_value" where
  "MODELS_index v =
     (case toPropertyKey v of Inl e \<Rightarrow> Inl e | Inr k \<Rightarrow> Inr (MODELS_get k))"

section \<open>The inference collaborator\<close>

text \<open>
  \<^verbatim>\<open>groqProvider\<close>, \<^verbatim>\<open>streamText\<close> and \<^verbatim>\<open>toDataStreamResponse\<close> belong to the SDK.
  The provider wraps the identifier it is given; the two calls are parameters of
  the model, each either throwing or returning. Every \<^verbatim>\<open>streamText\<close> call the
  handler makes is recorded: it is the only place where the route reaches the
  inference provider.
\<close>

datatype groq_model = GroqModel prop_value

definition groqProvider :: "prop_value \<Rightarrow> groq_model" where
  "groqProvider modelId = GroqModel modelId"

record ('r, 'b) sdk =
  streamText :: "groq_model \<Rightarrow> jsvalue \<Rightarrow> js_error + 'r"
  toDataStreamResponse :: "'r \<Rightarrow> js_error + 'b"

datatype call = StreamText groq_model jsvalue

datatype 'b response = Response string nat | DataStreamResponse 'b

section \<open>The route handler (src/app/api/chat/route.ts)\<close>

text \<open>
  The body of the \<^verbatim>\<open>try\<close> block: \<open>Inl\<close> is a thrown error, \<open>Inr\<close> a returned
  response; the second component lists the inference calls made on the way.
\<close>

definition POST_try ::
  "('r, 'b) sdk \<Rightarrow> request \<Rightarrow> (js_error + 'b response) \<times> call list" where
  "POST_try env req =
     (case req_json req of
        Inl e \<Rightarrow> (Inl e, [])
      | Inr v \<Rightarrow>
     (case destructure v of
        Inl e \<Rightarrow> (Inl e, [])
      | Inr (messages, mode) \<Rightarrow>
          if \<not> truthy messages \<or> \<not> isArray messages
          then (Inr (Response ''Messages array is required'' 400), [])
          else if \<not> truthy mode
          then (Inr (Response ''Valid mode is required'' 400), [])
          else
     (case MODELS_index mode of
        Inl e \<Rightarrow> (Inl e, [])
      | Inr modelId \<Rightarrow>
          if \<not> truthy_prop modelId
          then (Inr (Response ''Valid mode is required'' 400), [])
          else
     (case streamText env (groqProvider modelId) messages of
        Inl e \<Rightarrow> (Inl e, [StreamText (groqProvider modelId) messages])
      | Inr result \<Rightarrow>
     (case toDataStreamResponse env result of
        Inl e \<Rightarrow> (Inl e, [StreamText (groqProvider modelId) messages])
      | Inr b \<Rightarrow>
          (Inr (DataStreamResponse b), [StreamText (groqProvider modelId) messages]))))))"

text \<open>The handler: the \<^verbatim>\<open>catch\<close> turns every thrown error into the 500 response.\<close>

definition POST :: "('r, 'b) sdk \<Rightarrow> request \<Rightarrow> 'b response \<times> call list" where
  "POST env req =
     (case POST_try env req of
        (Inl e, calls) \<Rightarrow> (Response ''Internal server error'' 500, calls)
      | (Inr r, calls) \<Rightarrow> (r, calls))"

text \<open>
  Two collaborators for the examples: one that answers (it hands the transcript it
  was given back as the stream) and one whose \<^verbatim>\<open>streamText\<close> throws.
\<close>

definition echo_sdk :: "(jsvalue, jsvalue) sdk" where
  "echo_sdk =
     \<lparr>streamText = (\<lambda>model msgs. Inr msgs), toDataStreamResponse = (\<lambda>result. Inr result)\<rparr>"

definition offline_sdk :: "(jsvalue, jsvalue) sdk" where
  "offline_sdk =
     \<lparr>streamText = (\<lambda>model msgs. Inl (OtherError ''fetch failed'')),
      toDataStreamResponse = (\<lambda>result. Inr result)\<rparr>"

text \<open>A collaborator whose \<^verbatim>\<open>streamText\<close> throws on an empty transcript and answers otherwise.\<close>

definition strict_sdk :: "(jsvalue, jsvalue) sdk" where
  "strict_sdk =
     \<lparr>streamText =
        (\<lambda>model msgs.
           if msgs = Some (JArr []) then Inl (OtherError ''messages must not be empty'')
           else Inr msgs),
      toDataStreamResponse = (\<lambda>result. Inr result)\<rparr>"

text \<open>
  Following the specification's words, not the route: a turn "reduced to
  \<^verbatim>\<open>{role, content}\<close>" keeps its \<^verbatim>\<open>role\<close> and \<^verbatim>\<open>content\<close> properties and drops every
  other one. The route has no such step; the definition is there to compare
  what the route sends with what the specification describes.
\<close>

definition spec_reduced :: "json \<Rightarrow> json" where
  "spec_reduced turn =
     (case turn of
        JObj kvs \<Rightarrow> JObj (filter (\<lambda>kv. fst kv = ''role'' \<or> fst kv = ''content'') kvs)
      | v \<Rightarrow> v)"

section \<open>The chat page (src/app/chat/page.tsx)\<close>

text \<open>
  The page keeps \<open>selectedModel\<close> itself and takes \<open>messages\<close>, \<open>input\<close> and
  \<open>isLoading\<close> from the \<^verbatim>\<open>useChat\<close> hook of the SDK. A message is read through its
  \<^verbatim>\<open>id\<close>, \<^verbatim>\<open>role\<close> and \<^verbatim>\<open>content\<close>.
\<close>

record message =
  id' :: string
  role :: string
  content :: string

record chat_page =
  selectedModel :: string
  messages :: "message list"
  input :: string
  isLoading :: bool

text \<open>\<^verbatim>\<open>useState<ModelKey>('default')\<close> and a fresh hook.\<close>

definition ChatPage_initial :: chat_page where
  "ChatPage_initial = \<lparr>selectedModel = ''default'', messages = [], input = [], isLoading = False\<rparr>"

text \<open>The options of the model selector: \<^verbatim>\<open>Object.keys(MODELS)\<close>.\<close>

definition model_options :: "string list" where
  "model_options = map fst MODELS"

text \<open>
  \<^verbatim>\<open>String.prototype.trim\<close> removes white space and line terminators from both
  ends. Among the code units below 256 these are TAB, LF, VT, FF, CR, SPACE and
  NO-BREAK SPACE.
\<close>

definition isWhiteSpace :: "char \<Rightarrow> bool" where
  "isWhiteSpace c \<longleftrightarrow>
     c \<in> set [CHR 0x09, CHR 0x0A, CHR 0x0B, CHR 0x0C, CHR 0x0D, CHR 0x20, CHR 0xA0]"

definition trim :: "string \<Rightarrow> string" where
  "trim s = rev (dropWhile isWhiteSpace (rev (dropWhile isWhiteSpace s)))"

text \<open>The \<^verbatim>\<open>disabled\<close> attributes of the selector, the input field and the Send button.\<close>

definition selectDisabled :: "chat_page \<Rightarrow> bool" where
  "selectDisabled p = isLoading p"

definition inputDisabled :: "chat_page \<Rightarrow> bool" where
  "inputDisabled p = isLoading p"

definition sendDisabled :: "chat_page \<Rightarrow> bool" where
  "sendDisabled p = (isLoading p \<or> \<not> (trim (input p) \<noteq> []))"

text \<open>
  What an attempt to send ends in. The page has no error path of its own:
  \<open>Failed\<close> is there for the synchronous failures a caller could be told about,
  and nothing in the page produces it.
\<close>

datatype submit_error = ValidationError | TurnInFlightError

datatype outcome = Failed submit_error | NotDispatched | Dispatched

text \<open>
  \<^verbatim>\<open><form onSubmit={handleSubmit}>\<close> with the Send button as its only submit button:
  a click on a disabled button does nothing, and pressing Enter in the field
  submits through that button, so it does nothing either while the button is
  disabled. Otherwise the submit event reaches \<open>handleSubmit\<close>, which belongs to
  the SDK and is a parameter here: it returns the new page state and the requests
  it sent.
\<close>

definition submitForm ::
  "(chat_page \<Rightarrow> chat_page \<times> 'c list) \<Rightarrow> chat_page \<Rightarrow> outcome \<times> chat_page \<times> 'c list" where
  "submitForm handleSubmit p =
     (if sendDisabled p then (NotDispatched, p, [])
      else case handleSubmit p of (p', sent) \<Rightarrow> (Dispatched, p', sent))"

text \<open>
  A handler for the examples: it marks the page as loading and records the text
  it was asked to send.
\<close>

definition sample_handleSubmit :: "chat_page \<Rightarrow> chat_page \<times> string list" where
  "sample_handleSubmit p = (p\<lparr>isLoading := True\<rparr>, [input p])"

section \<open>Properties of the route handler\<close>

lemma MODELS_nonempty: "map_of MODELS m = Some modelId \<Longrightarrow> m \<noteq> [] \<and> modelId \<noteq> []"
  by (auto simp: MODELS_def split: if_splits)

lemma ModelKey_iff: "m \<in> ModelKey \<longleftrightarrow> (\<exists>modelId. map_of MODELS m = Some modelId)"
  by (auto simp: ModelKey_def MODELS_def)

lemma POST_calls_accepted:
  assumes "map_of kvs ''messages'' = Some (JArr ms)"
    and "map_of kvs ''mode'' = Some (JStr m)"
    and "map_of MODELS m = Some modelId"
  shows "snd (POST env (JsonBody (JObj kvs))) =
           [StreamText (GroqModel (Str modelId)) (Some (JArr ms))]"
  using assms MODELS_nonempty[OF assms(3)]
  by (simp add: POST_def POST_try_def req_json_def destructure_def MODELS_index_def
      toPropertyKey_def MODELS_get_def groqProvider_def split: sum.splits)

lemma POST_response_accepted:
  assumes "map_of kvs ''messages'' = Some (JArr ms)"
    and "map_of kvs ''mode'' = Some (JStr m)"
    and "map_of MODELS m = Some modelId"
  shows "fst (POST env (JsonBody (JObj kvs))) =
     (case streamText env (GroqModel (Str modelId)) (Some (JArr ms)) of
        Inl e \<Rightarrow> Response ''Internal server error'' 500
      | Inr result \<Rightarrow>
          (case toDataStreamResponse env result of
             Inl e \<Rightarrow> Response ''Internal server error'' 500
           | Inr b \<Rightarrow> DataStreamResponse b))"
  using assms MODELS_nonempty[OF assms(3)]
  by (simp add: POST_def POST_try_def req_json_def destructure_def MODELS_index_def
      toPropertyKey_def MODELS_get_def groqProvider_def split: sum.splits)

lemma POST_range:
  "fst (POST env req) \<in>
     {Response ''Messages array is required'' 400, Response ''Valid mode is required'' 400,
      Response ''Internal server error'' 500} \<union> range DataStreamResponse"
  by (simp add: POST_def POST_try_def split: sum.splits prod.splits)

lemma POST_not_array:
  "destructure v = Inr (msgs, mode) \<Longrightarrow> \<not> isArray msgs \<Longrightarrow>
   POST env (JsonBody v) = (Response ''Messages array is required'' 400, [])"
  by (simp add: POST_def POST_try_def req_json_def)

lemma POST_thrown:
  "fst (POST_try env req) = Inl e \<Longrightarrow>
   fst (POST env req) = Response ''Internal server error'' 500"
  by (cases "POST_try env req") (simp add: POST_def)

lemma POST_NotJson: "POST env NotJson = (Response ''Internal server error'' 500, [])"
  by (simp add: POST_def POST_try_def req_json_def)

lemma POST_null_body: "POST env (JsonBody JNull) = (Response ''Internal server error'' 500, [])"
  by (simp add: POST_def POST_try_def req_json_def destructure_def)

text \<open>
  A mode string that is neither a catalog key nor the name of a property of
  \<^verbatim>\<open>Object.prototype\<close> is turned away with the 400 response, before any call.
\<close>

lemma POST_unknown_mode:
  assumes "map_of kvs ''messages'' = Some (JArr ms)"
    and "map_of kvs ''mode'' = Some (JStr m)"
    and "m \<notin> ModelKey" and "m \<notin> set Object_prototype"
  shows "POST env (JsonBody (JObj kvs)) = (Response ''Valid mode is required'' 400, [])"
proof -
  from assms(3) have "map_of MODELS m = None"
    by (simp add: ModelKey_def map_of_eq_None_iff)
  with assms show ?thesis
    by (simp add: POST_def POST_try_def req_json_def destructure_def MODELS_index_def
        toPropertyKey_def MODELS_get_def)
qed

text \<open>
  Every name of a property of \<^verbatim>\<open>Object.prototype\<close> passes the mode check and
  reaches \<^verbatim>\<open>streamText\<close> as the model identifier.
\<close>

lemma Object_prototype_not_keys:
  "k \<in> set Object_prototype \<Longrightarrow> map_of MODELS k = None \<and> k \<noteq> []"
  by (auto simp: Object_prototype_def MODELS_def)

lemma POST_inherited_mode:
  assumes "map_of kvs ''messages'' = Some (JArr ms)"
    and "map_of kvs ''mode'' = Some (JStr k)"
    and "k \<in> set Object_prototype"
  shows "snd (POST env (JsonBody (JObj kvs))) =
           [StreamText (GroqModel (Inherited k)) (Some (JArr ms))]"
  using assms Object_prototype_not_keys [OF assms(3)]
  by (simp add: POST_def POST_try_def req_json_def destructure_def MODELS_index_def
      toPropertyKey_def MODELS_get_def groqProvider_def split: sum.splits)

text \<open>
  C1. The claim: a request whose mode is not a key of the catalog is rejected
  before any call to the inference collaborator. The handler tests
  \<^verbatim>\<open>!MODELS[mode]\<close>, and for \<^verbatim>\<open>"constructor"\<close>, which is not a key of the catalog, the
  read finds the inherited \<^verbatim>\<open>Object.prototype.constructor\<close>: the test passes, the
  400 response is not sent, and \<^verbatim>\<open>streamText\<close> is called with that inherited value
  as the model identifier.
\<close>

theorem POST_inherited_mode_reaches_streamText:
  "''constructor'' \<notin> ModelKey \<and>
   snd (POST env (JsonBody (JObj [(''messages'', JArr []), (''mode'', JStr ''constructor'')])))
     = [StreamText (GroqModel (Inherited ''constructor'')) (Some (JArr []))] \<and>
   fst (POST env (JsonBody (JObj [(''messages'', JArr []), (''mode'', JStr ''constructor'')])))
     \<noteq> Response ''Valid mode is required'' 400"
proof (intro conjI)
  show "''constructor'' \<notin> ModelKey"
    by (simp add: ModelKey_def MODELS_def)
  show "snd (POST env (JsonBody (JObj [(''messages'', JArr []), (''mode'', JStr ''constructor'')])))
     = [StreamText (GroqModel (Inherited ''constructor'')) (Some (JArr []))]"
    by (simp add: POST_def POST_try_def req_json_def destructure_def MODELS_index_def
        toPropertyKey_def MODELS_get_def MODELS_def Object_prototype_def groqProvider_def
        split: sum.splits)
  show "fst (POST env (JsonBody (JObj [(''messages'', JArr []), (''mode'', JStr ''constructor'')])))
     \<noteq> Response ''Valid mode is required'' 400"
    by (simp add: POST_def POST_try_def req_json_def destructure_def MODELS_index_def
        toPropertyKey_def MODELS_get_def MODELS_def Object_prototype_def groqProvider_def
        split: sum.splits)
qed

theorem POST_inherited_mode_reaches_streamText_witness:
  "POST echo_sdk (JsonBody (JObj [(''messages'', JArr []), (''mode'', JStr ''constructor'')]))
     = (DataStreamResponse (Some (JArr [])),
        [StreamText (GroqModel (Inherited ''constructor'')) (Some (JArr []))])"
  using POST_inherited_mode_reaches_streamText [of echo_sdk]
  by (simp add: POST_def POST_try_def req_json_def destructure_def MODELS_index_def
      toPropertyKey_def MODELS_get_def MODELS_def Object_prototype_def groqProvider_def
      echo_sdk_def)

text \<open>
  C2, as stated: the one outbound request carries the transcript with each turn
  reduced to \<^verbatim>\<open>{role, content}\<close>. The route passes \<^verbatim>\<open>messages\<close> on as parsed: a
  turn that arrives with an \<^verbatim>\<open>id\<close> beside its role and content is handed to
  \<^verbatim>\<open>streamText\<close> with the \<^verbatim>\<open>id\<close> still in it, which is not the reduced turn.
\<close>

theorem POST_transcript_not_reduced_counterexample:
  "snd (POST echo_sdk (JsonBody (JObj
     [(''messages'',
        JArr [JObj [(''id'', JStr ''1''), (''role'', JStr ''user''), (''content'', JStr ''Hello'')]]),
      (''mode'', JStr ''default'')]))) =
     [StreamText (groqProvider (Str ''llama-3.3-70b-versatile''))
        (Some (JArr
           [JObj [(''id'', JStr ''1''), (''role'', JStr ''user''), (''content'', JStr ''Hello'')]]))] \<and>
   spec_reduced (JObj [(''id'', JStr ''1''), (''role'', JStr ''user''), (''content'', JStr ''Hello'')])
     = JObj [(''role'', JStr ''user''), (''content'', JStr ''Hello'')] \<and>
   snd (POST echo_sdk (JsonBody (JObj
     [(''messages'',
        JArr [JObj [(''id'', JStr ''1''), (''role'', JStr ''user''), (''content'', JStr ''Hello'')]]),
      (''mode'', JStr ''default'')]))) \<noteq>
     [StreamText (groqProvider (Str ''llama-3.3-70b-versatile''))
        (Some (JArr (map spec_reduced
           [JObj [(''id'', JStr ''1''), (''role'', JStr ''user''), (''content'', JStr ''Hello'')]])))]"
  by (simp add: POST_def POST_try_def req_json_def destructure_def MODELS_index_def
      toPropertyKey_def MODELS_get_def MODELS_def groqProvider_def echo_sdk_def
      spec_reduced_def)

text \<open>
  C2, amended: for a request whose \<^verbatim>\<open>messages\<close> is an array and whose mode \<open>m\<close> is
  a key of the catalog, the handler makes exactly one \<^verbatim>\<open>streamText\<close> call; it
  carries the \<^verbatim>\<open>messages\<close> array exactly as received (every entry, in order, with
  all the properties it arrived with: the route reduces nothing) and the model
  identifier the catalog gives for \<open>m\<close>.
\<close>

theorem POST_one_call_with_transcript_and_model:
  assumes "map_of kvs ''messages'' = Some (JArr ms)"
    and "map_of kvs ''mode'' = Some (JStr m)"
    and "map_of MODELS m = Some modelId"
  shows "snd (POST env (JsonBody (JObj kvs))) =
           [StreamText (groqProvider (Str modelId)) (Some (JArr ms))]"
  using POST_calls_accepted [OF assms] by (simp add: groqProvider_def)

theorem POST_one_call_with_transcript_and_model_witness:
  "map_of MODELS ''default'' = Some ''llama-3.3-70b-versatile'' \<and>
   snd (POST echo_sdk (JsonBody (JObj
     [(''messages'',
        JArr [JObj [(''role'', JStr ''user''), (''content'', JStr ''Hello'')],
              JObj [(''role'', JStr ''assistant''), (''content'', JStr ''Hi there!'')],
              JObj [(''role'', JStr ''user''), (''content'', JStr ''2+2?'')]]),
      (''mode'', JStr ''default'')]))) =
     [StreamText (groqProvider (Str ''llama-3.3-70b-versatile''))
        (Some (JArr [JObj [(''role'', JStr ''user''), (''content'', JStr ''Hello'')],
              JObj [(''role'', JStr ''assistant''), (''content'', JStr ''Hi there!'')],
              JObj [(''role'', JStr ''user''), (''content'', JStr ''2+2?'')]]))]"
proof -
  have key: "map_of MODELS ''default'' = Some ''llama-3.3-70b-versatile''"
    by (simp add: MODELS_def)
  show ?thesis
    using key
      POST_one_call_with_transcript_and_model
        [of "[(''messages'',
                JArr [JObj [(''role'', JStr ''user''), (''content'', JStr ''Hello'')],
                      JObj [(''role'', JStr ''assistant''), (''content'', JStr ''Hi there!'')],
                      JObj [(''role'', JStr ''user''), (''content'', JStr ''2+2?'')]]),
              (''mode'', JStr ''default'')]"
            "[JObj [(''role'', JStr ''user''), (''content'', JStr ''Hello'')],
              JObj [(''role'', JStr ''assistant''), (''content'', JStr ''Hi there!'')],
              JObj [(''role'', JStr ''user''), (''content'', JStr ''2+2?'')]]"
            "''default''" "''llama-3.3-70b-versatile''" echo_sdk]
    by simp
qed

text \<open>
  C9, as stated: the API never rejects a request only because its transcript is
  empty. The route leaves the transcript to the collaborator, and answers 500
  when the collaborator throws: with one that throws on an empty transcript,
  the same mode gets the 500 response for \<^verbatim>\<open>[]\<close> and the stream for one turn.
\<close>

theorem POST_empty_transcript_counterexample:
  "POST strict_sdk (JsonBody (JObj [(''messages'', JArr []), (''mode'', JStr ''fast'')])) =
     (Response ''Internal server error'' 500,
      [StreamText (GroqModel (Str ''llama-3.1-8b-instant'')) (Some (JArr []))]) \<and>
   POST strict_sdk (JsonBody (JObj
     [(''messages'', JArr [JObj [(''role'', JStr ''user''), (''content'', JStr ''Hello'')]]),
      (''mode'', JStr ''fast'')])) =
     (DataStreamResponse
        (Some (JArr [JObj [(''role'', JStr ''user''), (''content'', JStr ''Hello'')]])),
      [StreamText (GroqModel (Str ''llama-3.1-8b-instant''))
         (Some (JArr [JObj [(''role'', JStr ''user''), (''content'', JStr ''Hello'')]]))])"
  by (simp add: POST_def POST_try_def req_json_def destructure_def MODELS_index_def
      toPropertyKey_def MODELS_get_def MODELS_def groqProvider_def strict_sdk_def)

text \<open>
  C9, amended: a request with an empty \<^verbatim>\<open>messages\<close> array and a mode that is a key
  of the catalog passes both checks: the handler calls \<^verbatim>\<open>streamText\<close> once, with
  the empty array, and never answers with a 400 response. Its answer is the
  stream when \<^verbatim>\<open>streamText\<close> and \<^verbatim>\<open>toDataStreamResponse\<close> return, and the 500
  response when either throws.
\<close>

theorem POST_empty_transcript_accepted:
  assumes "map_of kvs ''messages'' = Some (JArr [])"
    and "map_of kvs ''mode'' = Some (JStr m)"
    and "m \<in> ModelKey"
  shows "snd (POST env (JsonBody (JObj kvs))) =
           [StreamText (groqProvider (MODELS_get m)) (Some (JArr []))] \<and>
         (\<forall>body. fst (POST env (JsonBody (JObj kvs))) \<noteq> Response body 400) \<and>
         fst (POST env (JsonBody (JObj kvs))) =
           (case streamText env (groqProvider (MODELS_get m)) (Some (JArr [])) of
              Inl e \<Rightarrow> Response ''Internal server error'' 500
            | Inr result \<Rightarrow>
                (case toDataStreamResponse env result of
                   Inl e \<Rightarrow> Response ''Internal server error'' 500
                 | Inr b \<Rightarrow> DataStreamResponse b))"
proof -
  from assms(3) obtain modelId where key: "map_of MODELS m = Some modelId"
    by (auto simp: ModelKey_iff)
  have model: "groqProvider (MODELS_get m) = GroqModel (Str modelId)"
    using key by (simp add: groqProvider_def MODELS_get_def)
  have calls: "snd (POST env (JsonBody (JObj kvs))) =
          [StreamText (groqProvider (MODELS_get m)) (Some (JArr []))]"
    using POST_calls_accepted [OF assms(1,2) key] model by simp
  have answer: "fst (POST env (JsonBody (JObj kvs))) =
           (case streamText env (groqProvider (MODELS_get m)) (Some (JArr [])) of
              Inl e \<Rightarrow> Response ''Internal server error'' 500
            | Inr result \<Rightarrow>
                (case toDataStreamResponse env result of
                   Inl e \<Rightarrow> Response ''Internal server error'' 500
                 | Inr b \<Rightarrow> DataStreamResponse b))"
    using POST_response_accepted [OF assms(1,2) key, of env] model by simp
  have no400: "\<forall>body. fst (POST env (JsonBody (JObj kvs))) \<noteq> Response body 400"
    using POST_response_accepted [OF assms(1,2) key, of env]
    by (simp split: sum.splits)
  from calls no400 answer show ?thesis by blast
qed

theorem POST_empty_transcript_accepted_witness:
  "''fast'' \<in> ModelKey \<and>
   POST echo_sdk (JsonBody (JObj [(''messages'', JArr []), (''mode'', JStr ''fast'')])) =
     (DataStreamResponse (Some (JArr [])),
      [StreamText (GroqModel (Str ''llama-3.1-8b-instant'')) (Some (JArr []))])"
proof -
  have key: "''fast'' \<in> ModelKey"
    by (simp add: ModelKey_def MODELS_def)
  have model: "groqProvider (MODELS_get ''fast'') = GroqModel (Str ''llama-3.1-8b-instant'')"
    by (simp add: groqProvider_def MODELS_get_def MODELS_def)
  note t = POST_empty_transcript_accepted
      [of "[(''messages'', JArr []), (''mode'', JStr ''fast'')]" "''fast''" echo_sdk]
  have "snd (POST echo_sdk (JsonBody (JObj [(''messages'', JArr []), (''mode'', JStr ''fast'')]))) =
          [StreamText (GroqModel (Str ''llama-3.1-8b-instant'')) (Some (JArr []))]"
    using t key model by simp
  moreover have "fst (POST echo_sdk (JsonBody (JObj [(''messages'', JArr []), (''mode'', JStr ''fast'')])))
      = DataStreamResponse (Some (JArr []))"
    using t key model by (simp add: echo_sdk_def)
  ultimately show ?thesis
    using key by (simp add: prod_eq_iff)
qed

text \<open>
  C10. The handler answers every request, whatever the body and whatever the SDK
  does: the answer is one of the two 400 responses, the 500 response or the
  stream. Every error thrown inside the \<^verbatim>\<open>try\<close> block becomes the 500 response
  \<^verbatim>\<open>Internal server error\<close>: a body that is not JSON, and a \<^verbatim>\<open>streamText\<close> or
  \<^verbatim>\<open>toDataStreamResponse\<close> that throws on an accepted request. The \<^verbatim>\<open>messages\<close>
  check comes first: when \<^verbatim>\<open>messages\<close> is not an array the answer is 400
  \<^verbatim>\<open>Messages array is required\<close> whatever the mode is.
\<close>

theorem POST_always_responds:
  "fst (POST env req) \<in>
     {Response ''Messages array is required'' 400, Response ''Valid mode is required'' 400,
      Response ''Internal server error'' 500} \<union> range DataStreamResponse \<and>
   (fst (POST_try env req) = Inl e \<longrightarrow>
      fst (POST env req) = Response ''Internal server error'' 500) \<and>
   POST env NotJson = (Response ''Internal server error'' 500, []) \<and>
   (destructure v = Inr (msgs, mode) \<and> \<not> isArray msgs \<longrightarrow>
      POST env (JsonBody v) = (Response ''Messages array is required'' 400, [])) \<and>
   (map_of kvs ''messages'' = Some (JArr ms) \<and> map_of kvs ''mode'' = Some (JStr m) \<and>
    map_of MODELS m = Some modelId \<and>
    (streamText env (GroqModel (Str modelId)) (Some (JArr ms)) = Inl e1 \<or>
     (streamText env (GroqModel (Str modelId)) (Some (JArr ms)) = Inr result \<and>
      toDataStreamResponse env result = Inl e2)) \<longrightarrow>
      fst (POST env (JsonBody (JObj kvs))) = Response ''Internal server error'' 500)"
proof (intro conjI impI)
  show "fst (POST env req) \<in>
     {Response ''Messages array is required'' 400, Response ''Valid mode is required'' 400,
      Response ''Internal server error'' 500} \<union> range DataStreamResponse"
    by (rule POST_range)
  show "fst (POST env req) = Response ''Internal server error'' 500"
    if "fst (POST_try env req) = Inl e"
    using that by (rule POST_thrown)
  show "POST env NotJson = (Response ''Internal server error'' 500, [])"
    by (rule POST_NotJson)
  show "POST env (JsonBody v) = (Response ''Messages array is required'' 400, [])"
    if "destructure v = Inr (msgs, mode) \<and> \<not> isArray msgs"
    using that POST_not_array by blast
  show "fst (POST env (JsonBody (JObj kvs))) = Response ''Internal server error'' 500"
    if h: "map_of kvs ''messages'' = Some (JArr ms) \<and> map_of kvs ''mode'' = Some (JStr m) \<and>
      map_of MODELS m = Some modelId \<and>
      (streamText env (GroqModel (Str modelId)) (Some (JArr ms)) = Inl e1 \<or>
       (streamText env (GroqModel (Str modelId)) (Some (JArr ms)) = Inr result \<and>
        toDataStreamResponse env result = Inl e2))"
  proof -
    from h have a: "map_of kvs ''messages'' = Some (JArr ms)"
      and b: "map_of kvs ''mode'' = Some (JStr m)"
      and c: "map_of MODELS m = Some modelId" by simp_all
    from h have "streamText env (GroqModel (Str modelId)) (Some (JArr ms)) = Inl e1 \<or>
       (streamText env (GroqModel (Str modelId)) (Some (JArr ms)) = Inr result \<and>
        toDataStreamResponse env result = Inl e2)" by simp
    then show ?thesis
      using POST_response_accepted [OF a b c, of env] by auto
  qed
qed

theorem POST_always_responds_witness:
  "POST echo_sdk NotJson = (Response ''Internal server error'' 500, []) \<and>
   POST echo_sdk (JsonBody (JObj [(''messages'', JStr ''hello''), (''mode'', JStr ''nope'')]))
     = (Response ''Messages array is required'' 400, []) \<and>
   fst (POST_try echo_sdk (JsonBody JNull)) = Inl TypeError \<and>
   fst (POST echo_sdk (JsonBody JNull)) = Response ''Internal server error'' 500 \<and>
   fst (POST offline_sdk (JsonBody (JObj [(''messages'', JArr []), (''mode'', JStr ''default'')])))
     = Response ''Internal server error'' 500"
proof -
  have thrown: "fst (POST_try echo_sdk (JsonBody JNull)) = Inl TypeError"
    by (simp add: POST_try_def req_json_def destructure_def)
  have shape: "destructure (JObj [(''messages'', JStr ''hello''), (''mode'', JStr ''nope'')])
      = Inr (Some (JStr ''hello''), Some (JStr ''nope'')) \<and> \<not> isArray (Some (JStr ''hello''))"
    by (simp add: destructure_def)
  have failing: "map_of [(''messages'', JArr []), (''mode'', JStr ''default'')] ''messages'' = Some (JArr []) \<and>
      map_of [(''messages'', JArr []), (''mode'', JStr ''default'')] ''mode'' = Some (JStr ''default'') \<and>
      map_of MODELS ''default'' = Some ''llama-3.3-70b-versatile'' \<and>
      (streamText offline_sdk (GroqModel (Str ''llama-3.3-70b-versatile'')) (Some (JArr []))
         = Inl (OtherError ''fetch failed'') \<or>
       (streamText offline_sdk (GroqModel (Str ''llama-3.3-70b-versatile'')) (Some (JArr []))
         = Inr None \<and> toDataStreamResponse offline_sdk None = Inl TypeError))"
    by (simp add: MODELS_def offline_sdk_def)
  note a = POST_always_responds
    [of echo_sdk "JsonBody JNull" TypeError
        "JObj [(''messages'', JStr ''hello''), (''mode'', JStr ''nope'')]"
        "Some (JStr ''hello'')" "Some (JStr ''nope'')"]
  note b = POST_always_responds
    [of offline_sdk _ _ _ _ _ "[(''messages'', JArr []), (''mode'', JStr ''default'')]" "[]"
        "''default''" "''llama-3.3-70b-versatile''" "OtherError ''fetch failed''" None TypeError]
  show ?thesis
    using a b thrown shape failing by blast
qed

section \<open>Properties of the chat page\<close>

lemma sendDisabled_iff: "sendDisabled p \<longleftrightarrow> isLoading p \<or> trim (input p) = []"
  by (simp add: sendDisabled_def)

lemma trim_blank: "\<forall>c \<in> set s. isWhiteSpace c \<Longrightarrow> trim s = []"
proof -
  assume "\<forall>c \<in> set s. isWhiteSpace c"
  then have d: "dropWhile isWhiteSpace s = []"
    by simp
  show ?thesis
    unfolding trim_def d by simp
qed

text \<open>Empty after trimming means: nothing but white space.\<close>

lemma trim_empty_iff: "trim s = [] \<longleftrightarrow> (\<forall>c \<in> set s. isWhiteSpace c)"
proof
  assume "trim s = []"
  then have all: "\<forall>c \<in> set (dropWhile isWhiteSpace s). isWhiteSpace c"
    by (simp add: trim_def)
  have "dropWhile isWhiteSpace s = []"
  proof (rule ccontr)
    assume ne: "dropWhile isWhiteSpace s \<noteq> []"
    then have "\<not> isWhiteSpace (hd (dropWhile isWhiteSpace s))"
      by (rule hd_dropWhile)
    moreover from ne have "hd (dropWhile isWhiteSpace s) \<in> set (dropWhile isWhiteSpace s)"
      by (rule hd_in_set)
    ultimately show False using all by blast
  qed
  then show "\<forall>c \<in> set s. isWhiteSpace c"
    by simp
next
  assume "\<forall>c \<in> set s. isWhiteSpace c"
  then show "trim s = []" by (rule trim_blank)
qed

text \<open>With the Send button enabled the submit event reaches the handler.\<close>

lemma submitForm_dispatches:
  "\<not> isLoading p \<Longrightarrow> trim (input p) \<noteq> [] \<Longrightarrow>
   submitForm handleSubmit p = (Dispatched, fst (handleSubmit p), snd (handleSubmit p))"
  by (simp add: submitForm_def sendDisabled_def split: prod.splits)

lemma submitForm_never_fails: "fst (submitForm handleSubmit p) \<noteq> Failed err"
  by (simp add: submitForm_def split: prod.splits)

text \<open>
  C5, as stated: sending text that is empty after trimming fails with
  ValidationError. On the page nothing fails: with three spaces in the field the
  attempt is not dispatched, and no error is reported.
\<close>

theorem submitForm_blank_counterexample:
  "trim ''   '' = [] \<and>
   fst (submitForm sample_handleSubmit
          \<lparr>selectedModel = ''default'', messages = [], input = ''   '', isLoading = False\<rparr>)
     \<noteq> Failed ValidationError"
  by (simp add: submitForm_def sendDisabled_def trim_def isWhiteSpace_def)

text \<open>
  C5, amended: when the text in the field is empty after trimming, the Send
  button is disabled and an attempt to send is not dispatched to the submit
  handler: no request is sent and the page state (the messages with it) is
  unchanged. No error is reported.
\<close>

theorem submitForm_blank_not_dispatched:
  "trim (input p) = [] \<Longrightarrow> submitForm handleSubmit p = (NotDispatched, p, [])"
  by (simp add: submitForm_def sendDisabled_def)

theorem submitForm_blank_not_dispatched_witness:
  "trim (input \<lparr>selectedModel = ''default'', messages = [], input = [CHR 0x20, CHR 0x09, CHR 0x0A],
      isLoading = False\<rparr>) = [] \<and>
   submitForm sample_handleSubmit
     \<lparr>selectedModel = ''default'', messages = [], input = [CHR 0x20, CHR 0x09, CHR 0x0A],
      isLoading = False\<rparr>
     = (NotDispatched,
        \<lparr>selectedModel = ''default'', messages = [], input = [CHR 0x20, CHR 0x09, CHR 0x0A],
         isLoading = False\<rparr>, [])"
proof -
  have blank: "trim (input \<lparr>selectedModel = ''default'', messages = [],
      input = [CHR 0x20, CHR 0x09, CHR 0x0A], isLoading = False\<rparr>) = []"
    by (simp add: trim_def isWhiteSpace_def)
  show ?thesis
    using blank submitForm_blank_not_dispatched [OF blank, of sample_handleSubmit] by simp
qed

text \<open>
  C6, as stated: a second submission while a turn is in flight fails with
  TurnInFlightError. On the page nothing fails: while the hook reports
  \<open>isLoading\<close>, with an answer partly received and new text in the field, the
  attempt is not dispatched, and no error is reported.
\<close>

theorem submitForm_loading_counterexample:
  "isLoading \<lparr>selectedModel = ''default'',
      messages = [\<lparr>id' = ''1'', role = ''user'', content = ''Hello''\<rparr>,
                  \<lparr>id' = ''2'', role = ''assistant'', content = ''Hi''\<rparr>],
      input = ''again'', isLoading = True\<rparr> \<and>
   fst (submitForm sample_handleSubmit
          \<lparr>selectedModel = ''default'',
           messages = [\<lparr>id' = ''1'', role = ''user'', content = ''Hello''\<rparr>,
                       \<lparr>id' = ''2'', role = ''assistant'', content = ''Hi''\<rparr>],
           input = ''again'', isLoading = True\<rparr>)
     \<noteq> Failed TurnInFlightError"
  by (simp add: submitForm_def sendDisabled_def)

text \<open>
  C6, amended: while the hook reports a request in progress (\<open>isLoading\<close>), the
  Send button is disabled and an attempt to send is not dispatched to the submit
  handler: no request is sent and the page state, the messages of the turn in
  flight with it, is unchanged. No error is reported.
\<close>

theorem submitForm_loading_not_dispatched:
  "isLoading p \<Longrightarrow> submitForm handleSubmit p = (NotDispatched, p, [])"
  by (simp add: submitForm_def sendDisabled_def)

theorem submitForm_loading_not_dispatched_witness:
  "isLoading \<lparr>selectedModel = ''fast'',
      messages = [\<lparr>id' = ''1'', role = ''user'', content = ''2+2?''\<rparr>,
                  \<lparr>id' = ''2'', role = ''assistant'', content = ''4''\<rparr>],
      input = ''and 3+3?'', isLoading = True\<rparr> \<and>
   submitForm sample_handleSubmit
     \<lparr>selectedModel = ''fast'',
      messages = [\<lparr>id' = ''1'', role = ''user'', content = ''2+2?''\<rparr>,
                  \<lparr>id' = ''2'', role = ''assistant'', content = ''4''\<rparr>],
      input = ''and 3+3?'', isLoading = True\<rparr>
     = (NotDispatched,
        \<lparr>selectedModel = ''fast'',
         messages = [\<lparr>id' = ''1'', role = ''user'', content = ''2+2?''\<rparr>,
                     \<lparr>id' = ''2'', role = ''assistant'', content = ''4''\<rparr>],
         input = ''and 3+3?'', isLoading = True\<rparr>, [])"
proof -
  have busy: "isLoading \<lparr>selectedModel = ''fast'',
      messages = [\<lparr>id' = ''1'', role = ''user'', content = ''2+2?''\<rparr>,
                  \<lparr>id' = ''2'', role = ''assistant'', content = ''4''\<rparr>],
      input = ''and 3+3?'', isLoading = True\<rparr>"
    by simp
  show ?thesis
    using busy submitForm_loading_not_dispatched [OF busy, of sample_handleSubmit] by simp
qed

end
